theory Spec2Isabelle
  imports Main "HOL-Library.Sublist"
begin

section \<open>JavaScript values used by both sides\<close>

text \<open>
  A state variable of type \<open>string | null\<close> is a \<open>string option\<close>. The code tests such
  values by truthiness (\<open>!image\<close>, \<open>shareData.id\<close>, \<open>err.message || ...\<close>): \<open>null\<close>,
  \<open>undefined\<close> and the empty string are falsy, every other string is truthy.
\<close>

definition truthy :: "string option \<Rightarrow> bool" where
  "truthy v = (case v of None \<Rightarrow> False | Some s \<Rightarrow> s \<noteq> [])"

text \<open>\<open>s.split(c)\<close> for a one-character separator: never empty, \<open>''''.split(c) = ['''']\<close>.\<close>

fun split_js :: "char \<Rightarrow> string \<Rightarrow> string list" where
  "split_js c [] = [[]]"
| "split_js c (x # xs) =
     (if x = c then [] # split_js c xs
      else (case split_js c xs of
              [] \<Rightarrow> [[x]]
            | w # ws \<Rightarrow> (x # w) # ws))"

text \<open>\<open>xs[i]\<close>: \<open>undefined\<close> out of range.\<close>

definition index_js :: "'a list \<Rightarrow> nat \<Rightarrow> 'a option" where
  "index_js xs i = (if i < length xs then Some (xs ! i) else None)"

text \<open>A template literal \<open>`${v}`\<close> prints \<open>undefined\<close> for a missing value.\<close>

definition template_js :: "string option \<Rightarrow> string" where
  "template_js v = (case v of None \<Rightarrow> ''undefined'' | Some s \<Rightarrow> s)"

text \<open>\<open>v || d\<close> for a string \<open>v\<close> that may be missing.\<close>

definition or_js :: "string option \<Rightarrow> string \<Rightarrow> string" where
  "or_js v d = (case v of None \<Rightarrow> d | Some s \<Rightarrow> if s = [] then d else s)"

section \<open>Client: the transformation session (src/App.tsx)\<close>

subsection \<open>The occupation catalog\<close>

text \<open>
  \<open>OCCUPATIONS\<close>, lines 28-69. The fields \<open>description\<close>, \<open>icon\<close> and \<open>color\<close> are only
  rendered and are left out.
\<close>

datatype occupation = Occupation (job_id: string) (title: string) (prompt: string)

definition interstellar_explorer :: occupation where
  "interstellar_explorer = Occupation ''interstellar-explorer'' ''Interstellar Explorer''
     ''Transform the person in the photo into an Interstellar Explorer. They should be wearing a highly detailed, sleek, futuristic white and chrome space suit with glowing blue accents. The background should be the interior of a high-tech spaceship bridge with a view of a colorful nebula through a massive window. Maintain the person's facial features and identity perfectly. Cinematic lighting, photorealistic, 8k resolution.''"

definition cybernetic_surgeon :: occupation where
  "cybernetic_surgeon = Occupation ''cybernetic-surgeon'' ''Cybernetic Surgeon''
     ''Transform the person in the photo into a Cybernetic Surgeon. They should be wearing advanced medical scrubs with integrated fiber-optic sensors and a sleek head-mounted augmented reality display. One arm should have subtle, elegant cybernetic enhancements. The background is a sterile, glowing blue futuristic operating room with holographic medical charts. Maintain facial identity. Photorealistic, professional lighting.''"

definition deep_sea_architect :: occupation where
  "deep_sea_architect = Occupation ''deep-sea-architect'' ''Deep Sea Architect''
     ''Transform the person in the photo into a Deep Sea Architect. They are wearing a specialized lightweight diving suit with bioluminescent trim. They are standing in front of a massive glass dome overlooking a sprawling, glowing underwater city with futuristic submersibles. Maintain facial identity. Ethereal underwater lighting, vibrant colors, photorealistic.''"

definition galactic_diplomat :: occupation where
  "galactic_diplomat = Occupation ''galactic-diplomat'' ''Galactic Diplomat''
     ''Transform the person in the photo into a Galactic Diplomat. They are wearing elegant, flowing futuristic robes made of iridescent, light-emitting fabric. The setting is a grand, sun-drenched council chamber with alien architecture and holographic star maps in the background. Maintain facial identity. Regal atmosphere, soft cinematic lighting, high detail.''"

definition quantum_ai_engineer :: occupation where
  "quantum_ai_engineer = Occupation ''quantum-ai-engineer'' ''Quantum AI Engineer''
     ''Transform the person in the photo into a Quantum AI Engineer. They are wearing a minimalist tech-wear outfit with subtle glowing circuits. They are surrounded by floating, complex quantum data visualizations and glowing neural network structures in a dark, high-tech lab. Maintain facial identity. Cyberpunk aesthetic, high contrast, neon accents, photorealistic.''"

definition OCCUPATIONS :: "occupation list" where
  "OCCUPATIONS = [interstellar_explorer, cybernetic_surgeon, deep_sea_architect,
     galactic_diplomat, quantum_ai_engineer]"

subsection \<open>The component state\<close>

text \<open>
  The seven \<open>useState\<close> cells of \<open>App\<close>, lines 74-80. The cell \<open>image\<close> is named
  \<open>image'\<close> here, \<open>image\<close> being the image of a set in HOL.
\<close>

record session =
  selectedJob :: occupation
  image' :: "string option"
  resultImage :: "string option"
  shareId :: "string option"
  isSharing :: bool
  isProcessing :: bool
  error :: "string option"

definition initial_session :: session where
  "initial_session =
     \<lparr>selectedJob = OCCUPATIONS ! 0, image' = None, resultImage = None, shareId = None,
      isSharing = False, isProcessing = False, error = None\<rparr>"

text \<open>
  The status is not stored. The result panel (lines 368-474) derives it by one conditional
  chain: \<open>isProcessing ? spinner : resultImage ? result : error ? failure : empty\<close>.
\<close>

datatype status = Idle | Processing | Ready | Failed

definition status :: "session \<Rightarrow> status" where
  "status s =
     (if isProcessing s then Processing
      else if truthy (resultImage s) then Ready
      else if truthy (error s) then Failed
      else Idle)"

subsection \<open>What the session exchanges with the outside\<close>

text \<open>
  A chosen file: its MIME type and what \<open>FileReader.readAsDataURL\<close> leaves in
  \<open>reader.result\<close> when \<open>onloadend\<close> fires (\<open>null\<close> when the read failed).
\<close>

datatype js_file = File (file_type: string) (reader_result: "string option")

text \<open>The argument of \<open>ai.models.generateContent\<close>, lines 123-138.\<close>

datatype generate_request =
  GenerateRequest (req_model: string) (req_data: "string option")
    (req_mimeType: "string option") (req_text: string)

text \<open>A part of the provider's answer; only \<open>inlineData\<close> is read (line 143).\<close>

datatype inline_data = InlineData (data: "string option") (mimeType: "string option")

datatype part = Part (inlineData: "inline_data option") (part_text: "string option")

text \<open>
  A thrown value, read through \<open>err.message\<close> only (line 173): \<open>null\<close> or \<open>undefined\<close>,
  on which that read throws a \<open>TypeError\<close>, or any other value, with its \<open>message\<close>
  (\<open>None\<close> when it has none, as for a thrown string).
\<close>

datatype js_error = JsNullish | JsError (message: "string option")

text \<open>
  The one exception that can leave \<open>handleReimagine\<close>: the \<open>TypeError\<close> raised inside its
  \<open>catch\<close> block by \<open>err.message\<close> on \<open>null\<close> or \<open>undefined\<close>.
\<close>

datatype escape = TypeErrorInCatch

text \<open>
  How the \<open>try\<close> block gets on with the provider: the constructor on line 117 throws and
  no request is sent; or the request is sent and the awaited call throws; or it returns a
  response, of which the code reads \<open>response.candidates?.[0]?.content?.parts\<close>: \<open>None\<close>
  when the chain is \<open>undefined\<close>.
\<close>

datatype provider_outcome =
  ConstructorThrew js_error
| ProviderThrew js_error
| ProviderResponse "part list option"

text \<open>Whether \<open>generateContent\<close> was called at all.\<close>

definition request_sent :: "provider_outcome \<Rightarrow> bool" where
  "request_sent po = (case po of ConstructorThrew e \<Rightarrow> False | ProviderThrew e \<Rightarrow> True
                      | ProviderResponse parts \<Rightarrow> True)"

text \<open>
  How \<open>fetch('/api/share', ...)\<close> followed by \<open>.json()\<close> ends: one of the two rejects
  (network failure, a body that is not JSON such as a 5xx error page), or the body parses
  and the code reads its \<open>id\<close> (\<open>None\<close> for a body without it, such as the 400 answer).
\<close>

datatype share_outcome =
  ShareThrew js_error
| ShareJson "string option"

text \<open>The calls a handler sends out, in order.\<close>

datatype call =
  GenerateContent generate_request
| PostShare string

subsection \<open>Choosing a photo and a theme\<close>

text \<open>\<open>reader.onloadend\<close>, the same three setters in lines 87-91 and 101-105.\<close>

definition onloadend :: "string option \<Rightarrow> session \<Rightarrow> session" where
  "onloadend result s = s\<lparr>image' := result, resultImage := None, error := None\<rparr>"

text \<open>\<open>handleFileChange\<close>, lines 83-94: \<open>e.target.files?.[0]\<close> is the argument.\<close>

definition handleFileChange :: "js_file option \<Rightarrow> session \<Rightarrow> session" where
  "handleFileChange f s =
     (case f of
        None \<Rightarrow> s
      | Some fl \<Rightarrow> onloadend (reader_result fl) s)"

text \<open>\<open>onDrop\<close>, lines 96-108: as above, for files whose type starts with \<open>image/\<close>.\<close>

definition onDrop :: "js_file option \<Rightarrow> session \<Rightarrow> session" where
  "onDrop f s =
     (case f of
        None \<Rightarrow> s
      | Some fl \<Rightarrow>
          if prefix ''image/'' (file_type fl) then onloadend (reader_result fl) s else s)"

text \<open>The theme buttons, line 298.\<close>

definition setSelectedJob :: "occupation \<Rightarrow> session \<Rightarrow> session" where
  "setSelectedJob job s = s\<lparr>selectedJob := job\<rparr>"

subsection \<open>\<open>handleReimagine\<close>, lines 110-177\<close>

text \<open>Lines 118-137: the request built from the captured \<open>image\<close> and theme.\<close>

definition build_request :: "string \<Rightarrow> occupation \<Rightarrow> generate_request" where
  "build_request img job =
     GenerateRequest ''gemini-2.5-flash-image''
       (index_js (split_js CHR '','' img) 1)
       (case index_js (split_js CHR '';'' img) 0 of
          None \<Rightarrow> None
        | Some h \<Rightarrow> index_js (split_js CHR '':'' h) 1)
       (prompt job)"

text \<open>
  Lines 111-114, up to the first \<open>await\<close>: \<open>None\<close> is the early \<open>return\<close> of line 111;
  otherwise the flags are set and the handler enters the \<open>try\<close> block, where it builds
  the provider client and sends this request.
\<close>

definition handleReimagine_start :: "session \<Rightarrow> (session \<times> generate_request) option" where
  "handleReimagine_start s =
     (case image' s of
        None \<Rightarrow> None
      | Some img \<Rightarrow>
          if img = [] then None
          else Some (s\<lparr>isProcessing := True, error := None\<rparr>,
                     build_request img (selectedJob s)))"

text \<open>
  Lines 150-158, the body of the inner \<open>try\<close>: the new state, and the exception that
  leaves the block, if any.
\<close>

definition share_try :: "share_outcome \<Rightarrow> session \<Rightarrow> session \<times> js_error option" where
  "share_try so s =
     (case so of
        ShareThrew e \<Rightarrow> (s, Some e)
      | ShareJson sid \<Rightarrow> (if truthy sid then s\<lparr>shareId := sid\<rparr> else s, None))"

text \<open>Lines 149-161: the inner \<open>catch\<close> logs the exception and goes on.\<close>

definition auto_share :: "share_outcome \<Rightarrow> session \<Rightarrow> session" where
  "auto_share so s = fst (share_try so s)"

text \<open>
  The \<open>for\<close> loop of lines 142-165, stopping at the first part that has \<open>inlineData\<close>.
  It returns the state, the share calls sent and \<open>foundImage\<close>.
\<close>

fun parts_loop :: "share_outcome \<Rightarrow> part list \<Rightarrow> session \<Rightarrow> session \<times> call list \<times> bool" where
  "parts_loop so [] s = (s, [], False)"
| "parts_loop so (p # ps) s =
     (case inlineData p of
        None \<Rightarrow> parts_loop so ps s
      | Some d \<Rightarrow>
          (let newImage = ''data:image/png;base64,'' @ template_js (data d)
           in (auto_share so (s\<lparr>resultImage := Some newImage\<rparr>), [PostShare newImage], True)))"

text \<open>
  Lines 116-170, the body of the outer \<open>try\<close>: the state, the share calls sent, and the
  exception that leaves the block, if any.
\<close>

definition reimagine_try ::
  "provider_outcome \<Rightarrow> share_outcome \<Rightarrow> session \<Rightarrow> session \<times> call list \<times> js_error option" where
  "reimagine_try po so s =
     (case po of
        ConstructorThrew e \<Rightarrow> (s, [], Some e)
      | ProviderThrew e \<Rightarrow> (s, [], Some e)
      | ProviderResponse parts \<Rightarrow>
          (case (case parts of None \<Rightarrow> (s, [], False) | Some ps \<Rightarrow> parts_loop so ps s) of
             (s1, calls, foundImage) \<Rightarrow>
               if foundImage then (s1, calls, None)
               else (s1, calls,
                     Some (JsError (Some ''The AI didn't return an image. Please try again.'')))))"

text \<open>
  Lines 171-173, the outer \<open>catch\<close>: the state, and the exception the block itself
  raises, if any. On \<open>null\<close> or \<open>undefined\<close> the argument of \<open>setError\<close> throws before
  the setter is called.
\<close>

definition reimagine_catch :: "js_error \<Rightarrow> session \<Rightarrow> session \<times> escape option" where
  "reimagine_catch err s =
     (case err of
        JsNullish \<Rightarrow> (s, Some TypeErrorInCatch)
      | JsError m \<Rightarrow>
          (s\<lparr>error := Some (or_js m ''Something went wrong during the transformation.'')\<rparr>,
           None))"

text \<open>
  The \<open>try\<close>, \<open>catch\<close> and \<open>finally\<close> (lines 174-176) of the handler. The \<open>finally\<close>
  block runs on every way out, also when the \<open>catch\<close> block throws. The last component
  is the exception that leaves the handler.
\<close>

definition handleReimagine_resume ::
  "provider_outcome \<Rightarrow> share_outcome \<Rightarrow> session \<Rightarrow> session \<times> call list \<times> escape option" where
  "handleReimagine_resume po so s =
     (case reimagine_try po so s of
        (s1, calls, thrown) \<Rightarrow>
          (case (case thrown of None \<Rightarrow> (s1, None) | Some err \<Rightarrow> reimagine_catch err s1) of
             (s2, escaped) \<Rightarrow> (s2\<lparr>isProcessing := False\<rparr>, calls, escaped)))"

text \<open>
  One invocation run to completion with nothing in between. The provider request is
  among the calls only when it was sent.
\<close>

definition handleReimagine ::
  "provider_outcome \<Rightarrow> share_outcome \<Rightarrow> session \<Rightarrow> session \<times> call list \<times> escape option" where
  "handleReimagine po so s =
     (case handleReimagine_start s of
        None \<Rightarrow> (s, [], None)
      | Some (s0, req) \<Rightarrow>
          (case handleReimagine_resume po so s0 of
             (s1, calls, escaped) \<Rightarrow>
               (s1, (if request_sent po then GenerateContent req # calls else calls), escaped)))"

subsection \<open>\<open>handleShare\<close>, lines 187-205\<close>

definition handleShare :: "share_outcome \<Rightarrow> session \<Rightarrow> session \<times> call list" where
  "handleShare so s =
     (case resultImage s of
        None \<Rightarrow> (s, [])
      | Some r \<Rightarrow>
          if r = [] then (s, [])
          else ((fst (share_try so (s\<lparr>isSharing := True\<rparr>)))\<lparr>isSharing := False\<rparr>,
                [PostShare r]))"

subsection \<open>What the page lets the user trigger\<close>

text \<open>The main button, line 324: \<open>disabled={!image || isProcessing}\<close>.\<close>

definition reimagine_disabled :: "session \<Rightarrow> bool" where
  "reimagine_disabled s = (\<not> truthy (image' s) \<or> isProcessing s)"

text \<open>
  The "Try Again" button, lines 436-441, is rendered in the \<open>error\<close> branch of the
  conditional chain only.
\<close>

definition try_again_rendered :: "session \<Rightarrow> bool" where
  "try_again_rendered s = (status s = Failed)"

subsection \<open>Sequences of completed operations\<close>

datatype op =
  FileChange "js_file option"
| Drop "js_file option"
| SelectJob occupation
| Reimagine provider_outcome share_outcome
| Share share_outcome

fun run_op :: "session \<Rightarrow> op \<Rightarrow> session" where
  "run_op s (FileChange f) = handleFileChange f s"
| "run_op s (Drop f) = onDrop f s"
| "run_op s (SelectJob job) = setSelectedJob job s"
| "run_op s (Reimagine po so) = fst (handleReimagine po so s)"
| "run_op s (Share so) = fst (handleShare so s)"

definition run_ops :: "op list \<Rightarrow> session" where
  "run_ops ops = foldl run_op initial_session ops"

section \<open>Server: the share store and its two routes\<close>

text \<open>
  The table \<open>shares\<close> (lines 12-18): \<open>id TEXT PRIMARY KEY\<close>, \<open>image TEXT NOT NULL\<close>,
  \<open>created_at\<close> defaulting to the time of the insert. Rows are kept in insertion order.
\<close>

record share_row =
  row_id :: string
  row_image :: string
  created_at :: nat

type_synonym shares_db = "share_row list"

text \<open>The page of \<open>GET /share/:id\<close> by its two interpolations of \<open>row.image\<close> (lines 61, 63).\<close>

datatype viewer_page = ViewerPage (img_src: string) (download_href: string)

datatype response =
  Json200 string
| Json400 string
| Html200 viewer_page
| Text404 string
| Uncaught500

text \<open>
  \<open>INSERT INTO shares (id, image) VALUES (?, ?)\<close>: the primary key rejects an \<open>id\<close> that is
  already stored (the statement throws); otherwise one row is appended.
\<close>

definition insert_share :: "string \<Rightarrow> string \<Rightarrow> nat \<Rightarrow> shares_db \<Rightarrow> shares_db option" where
  "insert_share sid img now db =
     (if sid \<in> set (map row_id db) then None
      else Some (db @ [\<lparr>row_id = sid, row_image = img, created_at = now\<rparr>]))"

text \<open>\<open>SELECT image FROM shares WHERE id = ?\<close>, read with \<open>.get(id)\<close>: the row or \<open>undefined\<close>.\<close>

definition select_image :: "string \<Rightarrow> shares_db \<Rightarrow> string option" where
  "select_image sid db = map_option row_image (find (\<lambda>r. row_id r = sid) db)"

text \<open>
  \<open>POST /api/share\<close>, lines 27-36. \<open>uuid\<close> is what \<open>uuidv4()\<close> returns and \<open>now\<close> the clock
  of the insert; \<open>body_image\<close> is the \<open>image\<close> field of the parsed JSON body, \<open>None\<close> when
  the body has none. An exception of the insert is not caught by the handler and ends as
  the framework's 500 answer.
\<close>

definition post_share ::
  "string \<Rightarrow> nat \<Rightarrow> string option \<Rightarrow> shares_db \<Rightarrow> response \<times> shares_db" where
  "post_share uuid now body_image db =
     (case body_image of
        None \<Rightarrow> (Json400 ''No image provided'', db)
      | Some img \<Rightarrow>
          if img = [] then (Json400 ''No image provided'', db)
          else (case insert_share uuid img now db of
                  None \<Rightarrow> (Uncaught500, db)
                | Some db' \<Rightarrow> (Json200 uuid, db')))"

text \<open>\<open>GET /share/:id\<close>, lines 39-71.\<close>

definition get_share :: "string \<Rightarrow> shares_db \<Rightarrow> response" where
  "get_share sid db =
     (case select_image sid db of
        None \<Rightarrow> Text404 ''Image not found''
      | Some img \<Rightarrow> Html200 (ViewerPage img img))"

section \<open>Concrete sessions used as examples\<close>

definition photoA :: js_file where
  "photoA = File ''image/jpeg'' (Some ''data:image/jpeg;base64,AAAA'')"

definition photoB :: js_file where
  "photoB = File ''image/png'' (Some ''data:image/png;base64,BBBB'')"

definition jpeg_answer :: provider_outcome where
  "jpeg_answer =
     ProviderResponse (Some [Part None (Some ''Here it is''),
       Part (Some (InlineData (Some ''QUJD'') (Some ''image/jpeg''))) None])"

definition png_answer :: provider_outcome where
  "png_answer =
     ProviderResponse (Some [Part (Some (InlineData (Some ''WFla'') (Some ''image/png''))) None])"

definition text_only_answer :: provider_outcome where
  "text_only_answer = ProviderResponse (Some [Part None (Some ''I cannot do that'')])"

definition quota_error :: provider_outcome where
  "quota_error = ProviderThrew (JsError (Some ''quota exceeded''))"

definition network_down :: share_outcome where
  "network_down = ShareThrew (JsError (Some ''Failed to fetch''))"

text \<open>The session while the transform of \<open>photoA\<close> is outstanding.\<close>

definition busy_session :: session where
  "busy_session =
     \<lparr>selectedJob = interstellar_explorer, image' = Some ''data:image/jpeg;base64,AAAA'',
      resultImage = None, shareId = None, isSharing = False, isProcessing = True,
      error = None\<rparr>"

section \<open>Facts about the handlers\<close>

lemmas handler_defs =
  handleFileChange_def onDrop_def onloadend_def setSelectedJob_def handleReimagine_def
  handleReimagine_start_def handleReimagine_resume_def reimagine_try_def reimagine_catch_def
  request_sent_def auto_share_def share_try_def handleShare_def truthy_def template_js_def
  or_js_def Let_def

lemmas example_defs =
  photoA_def photoB_def jpeg_answer_def png_answer_def text_only_answer_def quota_error_def
  network_down_def busy_session_def

lemma first_occupation: "OCCUPATIONS ! 0 = interstellar_explorer"
  by (simp add: OCCUPATIONS_def)

lemma truthy_Some: "truthy v \<Longrightarrow> \<exists>x. v = Some x \<and> x \<noteq> []"
  by (cases v) (simp_all add: truthy_def)

text \<open>The loop finds nothing when no part carries inline data.\<close>

lemma parts_loop_none:
  "List.map_filter inlineData ps = [] \<Longrightarrow> parts_loop so ps s = (s, [], False)"
  by (induction ps) (auto simp: List.map_filter_simps split: option.splits)

text \<open>Otherwise it acts on the first such part and on no other.\<close>

lemma parts_loop_first:
  "List.map_filter inlineData ps = d # rest \<Longrightarrow>
   parts_loop so ps s =
     (auto_share so
        (s\<lparr>resultImage := Some (''data:image/png;base64,'' @ template_js (data d))\<rparr>),
      [PostShare (''data:image/png;base64,'' @ template_js (data d))], True)"
  by (induction ps) (auto simp: List.map_filter_simps Let_def split: option.splits)

lemma handleReimagine_skip:
  "\<not> truthy (image' s) \<Longrightarrow> handleReimagine po so s = (s, [], None)"
  by (auto simp: handleReimagine_def handleReimagine_start_def truthy_def split: option.splits)

lemma request_sent_simps:
  "\<not> request_sent (ConstructorThrew e)"
  "request_sent (ProviderThrew e)"
  "request_sent (ProviderResponse parts)"
  by (simp_all add: request_sent_def)

lemma handleReimagine_run:
  "image' s = Some img \<Longrightarrow> img \<noteq> [] \<Longrightarrow>
   handleReimagine po so s =
     (fst (handleReimagine_resume po so (s\<lparr>isProcessing := True, error := None\<rparr>)),
      (if request_sent po
       then GenerateContent (build_request img (selectedJob s)) #
         fst (snd (handleReimagine_resume po so (s\<lparr>isProcessing := True, error := None\<rparr>)))
       else fst (snd (handleReimagine_resume po so (s\<lparr>isProcessing := True, error := None\<rparr>)))),
      snd (snd (handleReimagine_resume po so (s\<lparr>isProcessing := True, error := None\<rparr>))))"
  by (simp add: handleReimagine_def handleReimagine_start_def split: prod.splits)

text \<open>The ways the provider call can end.\<close>

lemma resume_threw:
  "handleReimagine_resume (ProviderThrew e) so s =
     ((fst (reimagine_catch e s))\<lparr>isProcessing := False\<rparr>, [], snd (reimagine_catch e s))"
  by (simp add: handleReimagine_resume_def reimagine_try_def split: prod.splits)

text \<open>
  A rejection with \<open>null\<close> or \<open>undefined\<close> is the one case in which an exception leaves
  the handler; the flag is reset all the same and \<open>error\<close> is not set.
\<close>

lemma resume_threw_nullish:
  "handleReimagine_resume (ProviderThrew JsNullish) so s =
     (s\<lparr>isProcessing := False\<rparr>, [], Some TypeErrorInCatch)"
  by (simp add: resume_threw reimagine_catch_def)

text \<open>When the constructor throws, no request is among the calls.\<close>

lemma constructor_throw_sends_nothing:
  "fst (snd (handleReimagine (ConstructorThrew e) so s)) = []"
  by (simp add: handleReimagine_def handleReimagine_resume_def reimagine_try_def
      request_sent_def split: option.splits prod.splits)

lemma resume_no_image:
  "List.map_filter inlineData (case parts of None \<Rightarrow> [] | Some ps \<Rightarrow> ps) = [] \<Longrightarrow>
   handleReimagine_resume (ProviderResponse parts) so s =
     (s\<lparr>error := Some ''The AI didn't return an image. Please try again.'',
        isProcessing := False\<rparr>, [], None)"
  by (cases parts)
     (simp_all add: handleReimagine_resume_def reimagine_try_def reimagine_catch_def
        parts_loop_none or_js_def)

lemma resume_image:
  "List.map_filter inlineData ps = d # rest \<Longrightarrow>
   handleReimagine_resume (ProviderResponse (Some ps)) so s =
     ((auto_share so
         (s\<lparr>resultImage := Some (''data:image/png;base64,'' @ template_js (data d))\<rparr>))
        \<lparr>isProcessing := False\<rparr>,
      [PostShare (''data:image/png;base64,'' @ template_js (data d))], None)"
  by (simp add: handleReimagine_resume_def reimagine_try_def parts_loop_first)

text \<open>The \<open>finally\<close> block: whatever the two awaited calls did.\<close>

lemma resume_resets_flag: "\<not> isProcessing (fst (handleReimagine_resume po so s))"
  by (simp add: handleReimagine_resume_def Let_def split: prod.splits option.splits)

text \<open>The store: a fresh key is not found before the insert and is found after it.\<close>

lemma find_fresh: "sid \<notin> set (map row_id db) \<Longrightarrow> find (\<lambda>r. row_id r = sid) db = None"
  by (induction db) auto

lemma find_snoc:
  "find P (xs @ [y]) =
     (case find P xs of None \<Rightarrow> (if P y then Some y else None) | Some x \<Rightarrow> Some x)"
  by (induction xs) auto

lemma select_after_insert:
  "insert_share sid img now db = Some db' \<Longrightarrow> select_image sid db' = Some img"
  by (auto simp: insert_share_def select_image_def find_snoc find_fresh split: if_splits)

lemma post_share_fresh:
  "img \<noteq> [] \<Longrightarrow> uuid \<notin> set (map row_id db) \<Longrightarrow>
   post_share uuid now (Some img) db =
     (Json200 uuid, db @ [\<lparr>row_id = uuid, row_image = img, created_at = now\<rparr>])"
  by (simp add: post_share_def insert_share_def)

section \<open>The claims\<close>

subsection \<open>C1\<close>

text \<open>
  Claim C1: in every session reached from the page-load state by completed operations, a
  non-empty \<open>shareId\<close> comes with a non-empty \<open>resultImage\<close>.

  The code does not keep this. \<open>onloadend\<close> resets \<open>resultImage\<close> and \<open>error\<close> but has no
  \<open>setShareId(null)\<close> beside them: after a shared result, choosing a new photo leaves the
  old share id in a session that has no result.
\<close>

theorem share_id_outlives_result:
  "shareId (run_ops [FileChange (Some photoA),
                     Reimagine jpeg_answer (ShareJson (Some ''tok123'')),
                     FileChange (Some photoB)]) = Some ''tok123''
   \<and> resultImage (run_ops [FileChange (Some photoA),
                     Reimagine jpeg_answer (ShareJson (Some ''tok123'')),
                     FileChange (Some photoB)]) = None"
  by (simp add: run_ops_def initial_session_def first_occupation example_defs handler_defs
      List.map_filter_simps)

text \<open>
  What the user then sees: when the next transform succeeds and its share does not, the
  result panel shows the new picture with the share id of the old one.
\<close>

lemma old_share_id_beside_new_result:
  "shareId (run_ops [FileChange (Some photoA),
                     Reimagine jpeg_answer (ShareJson (Some ''tok123'')),
                     FileChange (Some photoB),
                     Reimagine (ProviderResponse (Some [Part (Some (InlineData (Some ''WFla'') None)) None]))
                       network_down]) = Some ''tok123''
   \<and> resultImage (run_ops [FileChange (Some photoA),
                     Reimagine jpeg_answer (ShareJson (Some ''tok123'')),
                     FileChange (Some photoB),
                     Reimagine (ProviderResponse (Some [Part (Some (InlineData (Some ''WFla'') None)) None]))
                       network_down]) = Some ''data:image/png;base64,WFla''"
  by (simp add: run_ops_def initial_session_def first_occupation example_defs handler_defs
      List.map_filter_simps)

subsection \<open>C2\<close>

text \<open>
  Claim C2, as amended: for every session and every image payload, choosing the photo
  (through the file input, or by dropping a file whose type starts with \<open>image/\<close>) replaces
  the source image with the payload and clears \<open>resultImage\<close> and \<open>error\<close>; the theme and
  the sharing and processing flags stay as they were, so the session is Idle when no
  transform is outstanding and stays Processing when one is.
\<close>

theorem setSource_replaces_and_clears:
  "handleFileChange (Some (File t (Some img))) s = onloadend (Some img) s
   \<and> (prefix ''image/'' t \<longrightarrow> onDrop (Some (File t (Some img))) s = onloadend (Some img) s)
   \<and> image' (onloadend (Some img) s) = Some img
   \<and> resultImage (onloadend (Some img) s) = None
   \<and> error (onloadend (Some img) s) = None
   \<and> selectedJob (onloadend (Some img) s) = selectedJob s
   \<and> isSharing (onloadend (Some img) s) = isSharing s
   \<and> isProcessing (onloadend (Some img) s) = isProcessing s
   \<and> status (onloadend (Some img) s) = (if isProcessing s then Processing else Idle)"
  by (simp add: handleFileChange_def onDrop_def onloadend_def status_def truthy_def)

theorem setSource_replaces_and_clears_witness:
  "prefix ''image/'' ''image/png''
   \<and> onDrop (Some photoB) busy_session = onloadend (Some ''data:image/png;base64,BBBB'') busy_session
   \<and> image' (onDrop (Some photoB) busy_session) = Some ''data:image/png;base64,BBBB''
   \<and> resultImage (onDrop (Some photoB) busy_session) = None
   \<and> status (onDrop (Some photoB) busy_session) = Processing"
proof -
  have h: "prefix ''image/'' ''image/png''"
    by simp
  show ?thesis
    using h setSource_replaces_and_clears
      [of "''image/png''" "''data:image/png;base64,BBBB''" busy_session]
    by (simp add: photoB_def busy_session_def)
qed

text \<open>
  The claim as stated fails on a session that is reached as follows: a photo is chosen,
  transformed and shared, and the transform is started again. A new photo chosen while
  that call is outstanding leaves the old share id in place and the session Processing,
  not Idle.
\<close>

theorem setSource_keeps_share_id_and_processing:
  "handleReimagine_start
     (run_ops [FileChange (Some photoA), Reimagine jpeg_answer (ShareJson (Some ''tok123''))])
     = Some (busy_session\<lparr>resultImage := Some ''data:image/png;base64,QUJD'',
                          shareId := Some ''tok123''\<rparr>,
             build_request ''data:image/jpeg;base64,AAAA'' interstellar_explorer)
   \<and> shareId (handleFileChange (Some photoB)
        (busy_session\<lparr>resultImage := Some ''data:image/png;base64,QUJD'',
                       shareId := Some ''tok123''\<rparr>)) = Some ''tok123''
   \<and> status (handleFileChange (Some photoB)
        (busy_session\<lparr>resultImage := Some ''data:image/png;base64,QUJD'',
                       shareId := Some ''tok123''\<rparr>)) = Processing"
  by (simp add: run_ops_def initial_session_def first_occupation example_defs handler_defs
      List.map_filter_simps status_def)

subsection \<open>C3\<close>

text \<open>
  Claim C3: in every session reached from the page-load state by completed operations,
  \<open>resultImage\<close> and \<open>error\<close> are never both present; a failing submit after an earlier
  success ends with \<open>error\<close> set and \<open>resultImage\<close> absent.

  The code does not keep this. \<open>handleReimagine\<close> resets \<open>error\<close> when it starts (line
  114) but not \<open>resultImage\<close>, which \<open>onloadend\<close> resets together with it: a failing
  transform after a successful one ends with both present, and the result panel, which
  tests \<open>resultImage\<close> before \<open>error\<close>, shows the old picture and no failure.
\<close>

theorem result_and_error_both_present:
  "resultImage (run_ops [FileChange (Some photoA),
                         Reimagine jpeg_answer (ShareJson (Some ''tok123'')),
                         Reimagine quota_error network_down])
     = Some ''data:image/png;base64,QUJD''
   \<and> error (run_ops [FileChange (Some photoA),
                         Reimagine jpeg_answer (ShareJson (Some ''tok123'')),
                         Reimagine quota_error network_down])
     = Some ''quota exceeded''
   \<and> status (run_ops [FileChange (Some photoA),
                         Reimagine jpeg_answer (ShareJson (Some ''tok123'')),
                         Reimagine quota_error network_down])
     = Ready"
  by (simp add: run_ops_def initial_session_def first_occupation example_defs handler_defs
      List.map_filter_simps status_def)

subsection \<open>C4\<close>

text \<open>
  Claim C4, as amended: while a transform is outstanding the page keeps the user from
  submitting again: the main button is disabled and the retry button is not rendered.
  \<open>handleReimagine\<close> itself only returns early for a missing source image; invoked in a
  Processing session that has one, it sends another provider call, and of the session
  fields it changes none but \<open>error\<close>, which it clears.
\<close>

theorem processing_guard_is_in_the_page:
  assumes "status s = Processing"
  shows "reimagine_disabled s \<and> \<not> try_again_rendered s
    \<and> handleReimagine_start s =
        (case image' s of
           None \<Rightarrow> None
         | Some img \<Rightarrow>
             if img = [] then None
             else Some (s\<lparr>error := None\<rparr>, build_request img (selectedJob s)))"
proof -
  from assms have p: "isProcessing s"
    by (simp add: status_def split: if_splits)
  then have "s\<lparr>isProcessing := True, error := None\<rparr> = s\<lparr>error := None\<rparr>"
    by simp
  with p assms show ?thesis
    by (simp add: reimagine_disabled_def try_again_rendered_def handleReimagine_start_def
        split: option.splits)
qed

theorem processing_guard_is_in_the_page_witness:
  "status busy_session = Processing \<and> reimagine_disabled busy_session
   \<and> \<not> try_again_rendered busy_session
   \<and> handleReimagine_start busy_session =
       Some (busy_session, build_request ''data:image/jpeg;base64,AAAA'' interstellar_explorer)"
proof -
  have h: "status busy_session = Processing"
    by (simp add: busy_session_def status_def)
  show ?thesis
    using h processing_guard_is_in_the_page [OF h] by (simp add: busy_session_def)
qed

text \<open>
  The claim as stated fails on the session in which the transform of \<open>photoA\<close> is
  outstanding: the handler does not return early, it sends a second request.
\<close>

theorem submit_while_processing_calls_provider:
  "status busy_session = Processing
   \<and> handleReimagine_start busy_session =
       Some (busy_session, build_request ''data:image/jpeg;base64,AAAA'' interstellar_explorer)
   \<and> handleReimagine_start busy_session \<noteq> None"
  by (simp add: busy_session_def status_def handleReimagine_start_def)

subsection \<open>C5\<close>

text \<open>
  Claim C5: when the transform succeeds and the chained share fails (the request or the
  parsing of its answer throws, as on a network error or a 5xx page, or the answer has no
  id, as the 400 answer), the session ends Ready with the new \<open>resultImage\<close>, \<open>shareId\<close>
  absent and \<open>error\<close> absent, and no exception leaves the handler.

  The code does not keep the part about \<open>shareId\<close>. Nothing resets it: \<open>handleReimagine\<close>
  clears \<open>error\<close> when it starts and sets \<open>shareId\<close> only when the share answers with an
  id. After a result that was shared, pressing the button again (it is enabled) and
  getting a new picture whose share fails ends Ready with the new picture and the share
  id of the old one, which the panel shows as the code to scan.
\<close>

theorem failed_auto_share_keeps_old_share_id:
  "status (run_ops [FileChange (Some photoA),
                    Reimagine jpeg_answer (ShareJson (Some ''tok123'')),
                    Reimagine png_answer network_down]) = Ready
   \<and> resultImage (run_ops [FileChange (Some photoA),
                    Reimagine jpeg_answer (ShareJson (Some ''tok123'')),
                    Reimagine png_answer network_down]) = Some ''data:image/png;base64,WFla''
   \<and> shareId (run_ops [FileChange (Some photoA),
                    Reimagine jpeg_answer (ShareJson (Some ''tok123'')),
                    Reimagine png_answer network_down]) = Some ''tok123''
   \<and> error (run_ops [FileChange (Some photoA),
                    Reimagine jpeg_answer (ShareJson (Some ''tok123'')),
                    Reimagine png_answer network_down]) = None"
  by (simp add: run_ops_def initial_session_def first_occupation example_defs handler_defs
      List.map_filter_simps status_def)

text \<open>The second submit is one the page offers: after the shared result the button is enabled.\<close>

lemma button_enabled_after_shared_result:
  "reimagine_disabled (run_ops [FileChange (Some photoA),
                    Reimagine jpeg_answer (ShareJson (Some ''tok123''))]) = False"
  by (simp add: run_ops_def initial_session_def first_occupation example_defs handler_defs
      List.map_filter_simps reimagine_disabled_def)

text \<open>
  The rest of the claim holds in every session: a failed share after a successful
  transform ends Ready with the new picture and no error, nothing leaves the handler, and
  \<open>shareId\<close> is what it was before.
\<close>

lemma failed_auto_share_outcome:
  assumes "truthy (image' s)"
    and "List.map_filter inlineData ps = d # rest"
    and "so = ShareThrew e \<or> so = ShareJson None"
    and "handleReimagine (ProviderResponse (Some ps)) so s = (s', calls, escaped)"
  shows "status s' = Ready
    \<and> resultImage s' = Some (''data:image/png;base64,'' @ template_js (data d))
    \<and> shareId s' = shareId s \<and> error s' = None \<and> escaped = None"
proof -
  obtain img where "image' s = Some img" "img \<noteq> []"
    using assms(1) truthy_Some by blast
  then show ?thesis
    using assms(3,4)
    by (auto simp: handleReimagine_run resume_image [OF assms(2)] auto_share_def share_try_def
        status_def truthy_def request_sent_simps)
qed

subsection \<open>C6\<close>

text \<open>
  Claim C6: whenever \<open>POST /api/share\<close> stores a payload and answers with an id, looking
  that id up right after, as \<open>GET /share/:id\<close> does, yields the payload that was sent,
  unchanged, and the page carries it in both places.
\<close>

theorem put_then_get_roundtrip:
  assumes "post_share uuid now (Some img) db = (Json200 sid, db')"
  shows "select_image sid db' = Some img \<and> get_share sid db' = Html200 (ViewerPage img img)"
proof -
  from assms have "insert_share uuid img now db = Some db'" and "sid = uuid"
    by (auto simp: post_share_def split: if_splits option.splits)
  then show ?thesis
    by (simp add: select_after_insert get_share_def)
qed

theorem put_then_get_roundtrip_witness:
  "post_share ''0b5c'' 7 (Some ''data:image/png;base64,QUJD'')
     [\<lparr>row_id = ''77aa'', row_image = ''data:image/png;base64,WFla'', created_at = 3\<rparr>]
   = (Json200 ''0b5c'',
      [\<lparr>row_id = ''77aa'', row_image = ''data:image/png;base64,WFla'', created_at = 3\<rparr>,
       \<lparr>row_id = ''0b5c'', row_image = ''data:image/png;base64,QUJD'', created_at = 7\<rparr>])
   \<and> select_image ''0b5c''
      [\<lparr>row_id = ''77aa'', row_image = ''data:image/png;base64,WFla'', created_at = 3\<rparr>,
       \<lparr>row_id = ''0b5c'', row_image = ''data:image/png;base64,QUJD'', created_at = 7\<rparr>]
     = Some ''data:image/png;base64,QUJD''"
proof -
  have h: "post_share ''0b5c'' 7 (Some ''data:image/png;base64,QUJD'')
     [\<lparr>row_id = ''77aa'', row_image = ''data:image/png;base64,WFla'', created_at = 3\<rparr>]
   = (Json200 ''0b5c'',
      [\<lparr>row_id = ''77aa'', row_image = ''data:image/png;base64,WFla'', created_at = 3\<rparr>,
       \<lparr>row_id = ''0b5c'', row_image = ''data:image/png;base64,QUJD'', created_at = 7\<rparr>])"
    by (simp add: post_share_def insert_share_def)
  show ?thesis
    using h put_then_get_roundtrip [OF h] by simp
qed

subsection \<open>C7\<close>

text \<open>
  Claim C7: a share request whose body has no \<open>image\<close>, and one whose \<open>image\<close> is the
  empty string, are both answered with 400 and leave the table as it was.
\<close>

theorem create_without_image_rejected:
  "post_share uuid now None db = (Json400 ''No image provided'', db)
   \<and> post_share uuid now (Some []) db = (Json400 ''No image provided'', db)"
  by (simp add: post_share_def)

subsection \<open>C8\<close>

text \<open>
  Claim C8: in a fresh session, after a photo is chosen and submitted, a provider answer
  without any inline-image part ends in Failed with the message "The AI didn't return an
  image. Please try again.", \<open>resultImage\<close> still absent, and the provider request as the
  only call sent: no share is created.
\<close>

theorem no_image_returned_fails:
  assumes "img \<noteq> []"
    and "List.map_filter inlineData (case parts of None \<Rightarrow> [] | Some ps \<Rightarrow> ps) = []"
    and "handleReimagine (ProviderResponse parts) so
           (handleFileChange (Some (File t (Some img))) initial_session) = (s', calls, escaped)"
  shows "status s' = Failed
    \<and> error s' = Some ''The AI didn't return an image. Please try again.''
    \<and> sublist ''didn't return an image'' ''The AI didn't return an image. Please try again.''
    \<and> resultImage s' = None
    \<and> calls = [GenerateContent (build_request img interstellar_explorer)]"
proof -
  define s0 where "s0 = handleFileChange (Some (File t (Some img))) initial_session"
  have s0: "s0 = initial_session\<lparr>image' := Some img\<rparr>"
    by (simp add: s0_def handleFileChange_def onloadend_def initial_session_def)
  have "sublist ''didn't return an image''
          (''The AI '' @ ''didn't return an image'' @ ''. Please try again.'')"
    by (rule sublist_appendI)
  then have sub: "sublist ''didn't return an image''
      ''The AI didn't return an image. Please try again.''"
    by simp
  have src: "image' s0 = Some img" and job: "selectedJob s0 = interstellar_explorer"
    by (simp_all add: s0 initial_session_def first_occupation)
  have "handleReimagine (ProviderResponse parts) so s0 =
      (s0\<lparr>isProcessing := True, error := None\<rparr>
         \<lparr>error := Some ''The AI didn't return an image. Please try again.'',
          isProcessing := False\<rparr>,
       [GenerateContent (build_request img interstellar_explorer)], None)"
    by (simp add: handleReimagine_run [OF src assms(1)] resume_no_image [OF assms(2)] job
        request_sent_simps)
  with assms(3) have s': "s' = s0\<lparr>isProcessing := True, error := None\<rparr>
         \<lparr>error := Some ''The AI didn't return an image. Please try again.'',
          isProcessing := False\<rparr>"
    and c: "calls = [GenerateContent (build_request img interstellar_explorer)]"
    by (simp_all add: s0_def)
  have "status s' = Failed" "resultImage s' = None"
    "error s' = Some ''The AI didn't return an image. Please try again.''"
    by (simp_all add: s' s0 initial_session_def status_def truthy_def)
  with sub c show ?thesis by simp
qed

theorem no_image_returned_fails_witness:
  "status (fst (handleReimagine text_only_answer network_down
             (handleFileChange (Some photoA) initial_session))) = Failed
   \<and> error (fst (handleReimagine text_only_answer network_down
             (handleFileChange (Some photoA) initial_session)))
       = Some ''The AI didn't return an image. Please try again.''
   \<and> fst (snd (handleReimagine text_only_answer network_down
             (handleFileChange (Some photoA) initial_session)))
       = [GenerateContent (build_request ''data:image/jpeg;base64,AAAA'' interstellar_explorer)]"
proof -
  define R where "R = handleReimagine (ProviderResponse (Some [Part None (Some ''I cannot do that'')]))
      network_down
      (handleFileChange (Some (File ''image/jpeg'' (Some ''data:image/jpeg;base64,AAAA'')))
         initial_session)"
  have h1: "''data:image/jpeg;base64,AAAA'' \<noteq> []"
    by simp
  have h2: "List.map_filter inlineData
      (case Some [Part None (Some ''I cannot do that'')] of None \<Rightarrow> [] | Some ps \<Rightarrow> ps) = []"
    by (simp add: List.map_filter_simps)
  have h3: "handleReimagine (ProviderResponse (Some [Part None (Some ''I cannot do that'')]))
      network_down
      (handleFileChange (Some (File ''image/jpeg'' (Some ''data:image/jpeg;base64,AAAA'')))
         initial_session) = (fst R, fst (snd R), snd (snd R))"
    by (simp add: R_def)
  show ?thesis
    using no_image_returned_fails [OF h1 h2 h3]
    by (simp add: R_def text_only_answer_def photoA_def)
qed

subsection \<open>C9\<close>

text \<open>
  Claim C9: an invocation of \<open>handleReimagine\<close> that runs to completion leaves
  \<open>isProcessing\<close> false, however the provider call and the share call end. (With no source
  image the handler returns at once and the flag, which it does not touch, is false if it
  was.)
\<close>

theorem processing_flag_reset:
  assumes "truthy (image' s) \<or> \<not> isProcessing s"
  shows "\<not> isProcessing (fst (handleReimagine po so s))"
proof (cases "truthy (image' s)")
  case True
  then obtain img where "image' s = Some img" "img \<noteq> []"
    using truthy_Some by blast
  then show ?thesis
    by (simp add: handleReimagine_run resume_resets_flag)
next
  case False
  with assms show ?thesis
    by (simp add: handleReimagine_skip)
qed

theorem processing_flag_reset_witness:
  "truthy (image' busy_session)
   \<and> \<not> isProcessing (fst (handleReimagine quota_error network_down busy_session))"
proof -
  have h: "truthy (image' busy_session) \<or> \<not> isProcessing busy_session"
    by (simp add: busy_session_def truthy_def)
  show ?thesis
    using processing_flag_reset [OF h, of quota_error network_down]
    by (simp add: busy_session_def truthy_def)
qed

subsection \<open>C10\<close>

text \<open>
  Claim C10: on a successful transform the result is the text \<open>data:image/png;base64,\<close>
  followed by the data of the first inline part, and this is the payload sent to the share
  route; the MIME type \<open>m\<close> that the provider reports for the part plays no role.
\<close>

theorem result_marked_png:
  assumes "truthy (image' s)"
    and "List.map_filter inlineData ps = InlineData dat m # rest"
  shows "resultImage (fst (handleReimagine (ProviderResponse (Some ps)) so s))
      = Some (''data:image/png;base64,'' @ template_js dat)
    \<and> PostShare (''data:image/png;base64,'' @ template_js dat)
        \<in> set (fst (snd (handleReimagine (ProviderResponse (Some ps)) so s)))"
proof -
  obtain img where "image' s = Some img" "img \<noteq> []"
    using assms(1) truthy_Some by blast
  then show ?thesis
    by (cases so)
       (simp_all add: handleReimagine_run resume_image [OF assms(2)] auto_share_def share_try_def
          request_sent_simps)
qed

theorem result_marked_png_witness:
  "resultImage (fst (handleReimagine jpeg_answer (ShareJson (Some ''tok123'')) busy_session))
      = Some ''data:image/png;base64,QUJD''
   \<and> PostShare ''data:image/png;base64,QUJD''
        \<in> set (fst (snd (handleReimagine jpeg_answer (ShareJson (Some ''tok123'')) busy_session)))"
proof -
  have h1: "truthy (image' busy_session)"
    by (simp add: busy_session_def truthy_def)
  have h2: "List.map_filter inlineData
      [Part None (Some ''Here it is''),
       Part (Some (InlineData (Some ''QUJD'') (Some ''image/jpeg''))) None]
      = InlineData (Some ''QUJD'') (Some ''image/jpeg'') # []"
    by (simp add: List.map_filter_simps)
  show ?thesis
    using result_marked_png [OF h1 h2, of "ShareJson (Some ''tok123'')"]
    by (simp add: jpeg_answer_def template_js_def)
qed

end
